theory Spec2Isabelle
  imports Main
begin

section \<open>Data model of the SDK\<close>

text \<open>
  The interfaces of \<^verbatim>\<open>src/src/index.ts\<close> (and of its second revision,
  \<^verbatim>\<open>src/unnamed/part_001\<close>) as records. An optional field \<^verbatim>\<open>f?: T\<close> is a
  \<open>T option\<close>, \<open>None\<close> standing for \<^verbatim>\<open>undefined\<close>. The numbers the SDK handles
  (limit, offset, total, range bounds, HTTP status) are integers on the wire and are
  modelled as \<open>int\<close>; the length of an array is a \<open>nat\<close>. The value of a filter and
  the records of a response are opaque to the SDK: they are the type parameters
  \<open>'v\<close> and \<open>'r\<close>.
\<close>

record 'v Filter =
  filter_field :: string
  filter_op :: string
  filter_value :: 'v

datatype SortDirection = ASC | DESC

record Sort =
  sort_field :: string
  direction :: SortDirection

record 'v SearchOptions =
  opt_index :: string
  opt_filters :: "'v Filter list option"
  opt_sort :: "Sort list option"
  opt_select :: "string list option"
  opt_limit :: "int option"
  opt_offset :: "int option"

record Range =
  range_start :: int
  range_end :: int

text \<open>
  The object that \<^verbatim>\<open>response.json()\<close> decodes. The SDK reads four properties of
  it: \<^verbatim>\<open>message\<close> (of the body of a failure response), and \<^verbatim>\<open>total\<close>,
  \<^verbatim>\<open>range\<close> and \<^verbatim>\<open>records\<close> (of the body of a success response, which
  \<^verbatim>\<open>search\<close> casts to \<^verbatim>\<open>SearchResponse\<close> without any check). \<^verbatim>\<open>message\<close>
  and \<^verbatim>\<open>total\<close> may be absent: the code guards both (\<^verbatim>\<open>||\<close> and \<^verbatim>\<open>??\<close>).
\<close>

record 'r SearchResponse =
  message :: "string option"
  total :: "int option"
  page_range :: Range
  records :: "'r list"

text \<open>
  What \<^verbatim>\<open>response.json()\<close> resolves with: the decoded value. Reading a property
  of \<^verbatim>\<open>null\<close> throws a \<^verbatim>\<open>TypeError\<close>; every other value is read as the
  object above (a number, a string or an array has no \<^verbatim>\<open>message\<close>).
\<close>

datatype 'r json_value = JsonNull | JsonObject "'r SearchResponse"

text \<open>
  What a promise of the SDK rejects with: a \<^verbatim>\<open>SearchError\<close>, or any other
  \<^verbatim>\<open>Error\<close> (one for which \<^verbatim>\<open>instanceof SearchError\<close> is false), each with
  its message.
\<close>

datatype js_error = SearchError string | OtherError string

text \<open>The object under the key \<^verbatim>\<open>query\<close> of the request body.\<close>

record 'v Query =
  q_index :: string
  q_filters :: "'v Filter list option"
  q_sort :: "Sort list option"
  q_select :: "string list option"
  q_limit :: "int option"
  q_offset :: "int option"

record 'v RequestInit =
  req_method :: string
  req_headers :: "(string \<times> string) list"
  req_body :: "'v Query"

text \<open>
  The transport, \<^verbatim>\<open>fetch\<close>, is external. Its promise rejects with an error that
  is not a \<^verbatim>\<open>SearchError\<close> (connection failure, timeout), or resolves with a
  \<^verbatim>\<open>Response\<close>, whose \<^verbatim>\<open>json()\<close> in turn rejects (a body that is not JSON;
  \<open>Inl\<close> holds the message of the error) or resolves with the decoded value.
\<close>

record 'r Response =
  ok :: bool
  status :: int
  json :: "string + 'r json_value"

datatype 'r fetch_result = FetchRejects string | FetchResolves "'r Response"

type_synonym ('v, 'r) fetch = "string \<Rightarrow> 'v RequestInit \<Rightarrow> 'r fetch_result"

record SearchbaseSDK =
  apiToken :: string
  baseURL :: string

definition new_SearchbaseSDK :: "string \<Rightarrow> SearchbaseSDK" where
  "new_SearchbaseSDK token = \<lparr>apiToken = token, baseURL = ''https://api.searchbase.dev''\<rparr>"

text \<open>The two revisions of the class that the repository holds.\<close>

datatype revision = Index_ts | Part_001

section \<open>Numbers in template literals\<close>

definition digit_char :: "nat \<Rightarrow> char" where
  "digit_char d = ''0123456789'' ! (d mod 10)"

fun string_of_nat :: "nat \<Rightarrow> string" where
  "string_of_nat n =
     (if n < 10 then [digit_char n] else string_of_nat (n div 10) @ [digit_char (n mod 10)])"

declare string_of_nat.simps [simp del]

definition number_to_string :: "int \<Rightarrow> string" where
  "number_to_string i =
     (if i < 0 then CHR ''-'' # string_of_nat (nat (- i)) else string_of_nat (nat i))"

section \<open>The request body\<close>

text \<open>
  \<^verbatim>\<open>...(x && { key: x })\<close> adds the key when \<^verbatim>\<open>x\<close> is truthy. An array is
  truthy whenever it is present, also when it is empty; a number is truthy when it is
  not zero.
\<close>

definition spread_array :: "'a list option \<Rightarrow> 'a list option" where
  "spread_array x = (case x of None \<Rightarrow> None | Some xs \<Rightarrow> Some xs)"

definition spread_number :: "int option \<Rightarrow> int option" where
  "spread_number x = (case x of None \<Rightarrow> None | Some n \<Rightarrow> if n \<noteq> 0 then Some n else None)"

text \<open>
  \<^verbatim>\<open>...(options.offset && options.offset > 0 && { offset: options.offset })\<close>,
  the line of \<^verbatim>\<open>part_001\<close>.
\<close>

definition spread_positive :: "int option \<Rightarrow> int option" where
  "spread_positive x =
     (case x of None \<Rightarrow> None | Some n \<Rightarrow> if n \<noteq> 0 \<and> n > 0 then Some n else None)"

definition query :: "revision \<Rightarrow> 'v SearchOptions \<Rightarrow> 'v Query" where
  "query rv options =
     \<lparr>q_index = opt_index options,
      q_filters = spread_array (opt_filters options),
      q_sort = spread_array (opt_sort options),
      q_select = spread_array (opt_select options),
      q_limit = spread_number (opt_limit options),
      q_offset = (case rv of
                    Index_ts \<Rightarrow> spread_number (opt_offset options)
                  | Part_001 \<Rightarrow> spread_positive (opt_offset options))\<rparr>"

definition requestOptions :: "revision \<Rightarrow> SearchbaseSDK \<Rightarrow> 'v SearchOptions \<Rightarrow> 'v RequestInit" where
  "requestOptions rv sdk options =
     \<lparr>req_method = ''POST'',
      req_headers = [(''Content-Type'', ''application/json''),
                     (''x-searchbase-token'', apiToken sdk)],
      req_body = query rv options\<rparr>"

section \<open>fetchWithErrorHandling and search\<close>

definition http_error_message :: "int \<Rightarrow> string" where
  "http_error_message code = ''HTTP error! status: '' @ number_to_string code"

text \<open>\<^verbatim>\<open>errorData.message || `HTTP error! status: ${response.status}`\<close>\<close>

definition error_message :: "'r SearchResponse \<Rightarrow> int \<Rightarrow> string" where
  "error_message errorData code =
     (case message errorData of
        None \<Rightarrow> http_error_message code
      | Some m \<Rightarrow> if m \<noteq> [] then m else http_error_message code)"

text \<open>
  The message of the \<^verbatim>\<open>TypeError\<close> that reading property \<open>p\<close> of \<^verbatim>\<open>null\<close>
  throws (the wording of Node.js).
\<close>

definition null_property_error :: "string \<Rightarrow> string" where
  "null_property_error p =
     ''Cannot read properties of null (reading '' @ [CHR 0x27] @ p @ [CHR 0x27] @ '')''"

text \<open>
  The body of the \<^verbatim>\<open>try\<close> block: what it returns, or what it throws. On a
  failure status the body is decoded and its \<^verbatim>\<open>message\<close> read: the decoding may
  throw, and so does the reading when the body decodes to \<^verbatim>\<open>null\<close>.
\<close>

definition try_fetch :: "('v, 'r) fetch \<Rightarrow> string \<Rightarrow> 'v RequestInit \<Rightarrow> js_error + 'r Response" where
  "try_fetch fetch url options =
     (case fetch url options of
        FetchRejects m \<Rightarrow> Inl (OtherError m)
      | FetchResolves response \<Rightarrow>
          if \<not> ok response then
            (case json response of
               Inl m \<Rightarrow> Inl (OtherError m)
             | Inr JsonNull \<Rightarrow> Inl (OtherError (null_property_error ''message''))
             | Inr (JsonObject errorData) \<Rightarrow>
                 Inl (SearchError (error_message errorData (status response))))
          else Inr response)"

text \<open>The \<^verbatim>\<open>catch\<close> block: what it throws for the error caught.\<close>

definition catch_error :: "js_error \<Rightarrow> js_error" where
  "catch_error error =
     (case error of
        SearchError m \<Rightarrow> SearchError m
      | OtherError m \<Rightarrow> SearchError (''Network error: '' @ m))"

definition fetchWithErrorHandling ::
  "('v, 'r) fetch \<Rightarrow> string \<Rightarrow> 'v RequestInit \<Rightarrow> js_error + 'r Response" where
  "fetchWithErrorHandling fetch url options =
     (case try_fetch fetch url options of
        Inl error \<Rightarrow> Inl (catch_error error)
      | Inr response \<Rightarrow> Inr response)"

definition search_url :: "SearchbaseSDK \<Rightarrow> string" where
  "search_url sdk = baseURL sdk @ ''/search''"

text \<open>
  \<^verbatim>\<open>search\<close>: the second \<^verbatim>\<open>await response.json()\<close> stands outside of the
  \<^verbatim>\<open>try\<close> block of \<^verbatim>\<open>fetchWithErrorHandling\<close>, so what it throws leaves
  \<^verbatim>\<open>search\<close> as it is. The value decoded is returned under an unchecked cast,
  \<^verbatim>\<open>null\<close> included.
\<close>

definition search ::
  "revision \<Rightarrow> SearchbaseSDK \<Rightarrow> ('v, 'r) fetch \<Rightarrow> 'v SearchOptions \<Rightarrow> js_error + 'r json_value" where
  "search rv sdk fetch options =
     (case fetchWithErrorHandling fetch (search_url sdk) (requestOptions rv sdk options) of
        Inl error \<Rightarrow> Inl error
      | Inr response \<Rightarrow>
          (case json response of
             Inl m \<Rightarrow> Inl (OtherError m)
           | Inr data \<Rightarrow> Inr data))"

section \<open>searchAll\<close>

text \<open>
  The generator, run against a transport whose answer may depend on how many calls came
  before (\<open>fetch k\<close> answers call number \<open>k\<close>, counted from 0, as a mock with one
  answer per call does). A traversal records what the generator did: the argument of
  each call of \<^verbatim>\<open>search\<close>, the responses \<^verbatim>\<open>search\<close> returned, the batches
  yielded, and how the generator ended. The loop may run forever, so the model takes
  the number of page fetches the consumer allows (fuel); \<open>finished = None\<close> says that
  after this many pages the generator has not ended: its next step is one more fetch.
\<close>

datatype completion = Returned | Threw js_error

record ('v, 'r) traversal =
  requests :: "'v SearchOptions list"
  responses :: "'r SearchResponse list"
  batches :: "'r list list"
  finished :: "completion option"

definition batchSize :: int where
  "batchSize = 100"

definition page_call :: "'v SearchOptions \<Rightarrow> int \<Rightarrow> 'v SearchOptions" where
  "page_call options offset = options\<lparr>opt_limit := Some batchSize, opt_offset := Some offset\<rparr>"

definition yielded ::
  "'v SearchOptions \<Rightarrow> 'r SearchResponse \<Rightarrow> ('v, 'r) traversal \<Rightarrow> ('v, 'r) traversal" where
  "yielded call response t =
     \<lparr>requests = call # requests t,
      responses = response # responses t,
      batches = records response # batches t,
      finished = finished t\<rparr>"

text \<open>\<^verbatim>\<open>total ?? 0\<close>, for the total of the response just read.\<close>

definition total_or_zero :: "int option \<Rightarrow> int" where
  "total_or_zero t = (case t of None \<Rightarrow> 0 | Some n \<Rightarrow> n)"

text \<open>
  One round of the \<^verbatim>\<open>do ... while\<close> loop, with \<open>k\<close> the number of calls of the
  transport so far: \<^verbatim>\<open>search\<close> is called with the caller's options, the limit
  \<^verbatim>\<open>batchSize\<close> and the current offset; when it throws, the generator throws; when
  it returns \<^verbatim>\<open>null\<close>, reading \<^verbatim>\<open>response.records\<close> throws; otherwise the
  records are yielded, \<^verbatim>\<open>totalFetched\<close> grows by their number,
  \<^verbatim>\<open>offset\<close> becomes \<^verbatim>\<open>response.range.end\<close>, and the loop goes on while
  \<^verbatim>\<open>totalFetched < (total ?? 0)\<close> for the total of this response.
\<close>

fun searchAll_loop ::
  "nat \<Rightarrow> revision \<Rightarrow> SearchbaseSDK \<Rightarrow> (nat \<Rightarrow> ('v, 'r) fetch) \<Rightarrow> 'v SearchOptions \<Rightarrow>
   nat \<Rightarrow> int \<Rightarrow> nat \<Rightarrow> ('v, 'r) traversal" where
  "searchAll_loop 0 rv sdk fetch options k offset totalFetched =
     \<lparr>requests = [], responses = [], batches = [], finished = None\<rparr>"
| "searchAll_loop (Suc n) rv sdk fetch options k offset totalFetched =
     (case search rv sdk (fetch k) (page_call options offset) of
        Inl error \<Rightarrow>
          \<lparr>requests = [page_call options offset], responses = [], batches = [],
           finished = Some (Threw error)\<rparr>
      | Inr JsonNull \<Rightarrow>
          \<lparr>requests = [page_call options offset], responses = [], batches = [],
           finished = Some (Threw (OtherError (null_property_error ''records'')))\<rparr>
      | Inr (JsonObject response) \<Rightarrow>
          if int (totalFetched + length (records response)) < total_or_zero (total response)
          then yielded (page_call options offset) response
                 (searchAll_loop n rv sdk fetch options (Suc k)
                    (range_end (page_range response))
                    (totalFetched + length (records response)))
          else \<lparr>requests = [page_call options offset], responses = [response],
                batches = [records response], finished = Some Returned\<rparr>)"

definition searchAll ::
  "nat \<Rightarrow> revision \<Rightarrow> SearchbaseSDK \<Rightarrow> (nat \<Rightarrow> ('v, 'r) fetch) \<Rightarrow> 'v SearchOptions \<Rightarrow>
   ('v, 'r) traversal" where
  "searchAll n rv sdk fetch options = searchAll_loop n rv sdk fetch options 0 0 0"

section \<open>Reading a traversal\<close>

text \<open>
  The offset of the next page request after a traversal \<open>t\<close> that began at \<open>offset\<close>,
  the number of records it has yielded, and a traversal followed by what a second one
  did.
\<close>

definition next_offset :: "int \<Rightarrow> ('v, 'r) traversal \<Rightarrow> int" where
  "next_offset offset t =
     (if responses t = [] then offset else range_end (page_range (last (responses t))))"

definition fetched :: "('v, 'r) traversal \<Rightarrow> nat" where
  "fetched t = length (concat (batches t))"

definition then_traversal :: "('v, 'r) traversal \<Rightarrow> ('v, 'r) traversal \<Rightarrow> ('v, 'r) traversal" where
  "then_traversal t u =
     \<lparr>requests = requests t @ requests u,
      responses = responses t @ responses u,
      batches = batches t @ batches u,
      finished = finished u\<rparr>"

section \<open>Transports to run the SDK against\<close>

text \<open>
  A transport that answers call number \<open>k\<close> with the \<open>k\<close>-th of a list of responses
  (as the mock of \<^verbatim>\<open>src/unnamed/part_000\<close> does with
  \<^verbatim>\<open>mockResolvedValueOnce\<close>), and rejects once the list is used up.
\<close>

definition scripted :: "'r Response list \<Rightarrow> nat \<Rightarrow> ('v, 'r) fetch" where
  "scripted answers k url options =
     (if k < length answers then FetchResolves (answers ! k) else FetchRejects ''no answer left'')"

definition success :: "int \<Rightarrow> int \<Rightarrow> int \<Rightarrow> 'r list \<Rightarrow> 'r Response" where
  "success t s e rs =
     \<lparr>ok = True, status = 200,
      json = Inr (JsonObject \<lparr>message = None, total = Some t,
                  page_range = \<lparr>range_start = s, range_end = e\<rparr>, records = rs\<rparr>)\<rparr>"

definition failure :: "int \<Rightarrow> string option \<Rightarrow> 'r Response" where
  "failure code m =
     \<lparr>ok = False, status = code,
      json = Inr (JsonObject \<lparr>message = m, total = None,
                  page_range = \<lparr>range_start = 0, range_end = 0\<rparr>, records = []\<rparr>)\<rparr>"

definition undecodable :: "bool \<Rightarrow> int \<Rightarrow> 'r Response" where
  "undecodable is_ok code =
     \<lparr>ok = is_ok, status = code, json = Inl ''Unexpected token < in JSON at position 0''\<rparr>"

definition null_body :: "bool \<Rightarrow> int \<Rightarrow> 'r Response" where
  "null_body is_ok code = \<lparr>ok = is_ok, status = code, json = Inr JsonNull\<rparr>"

definition test_sdk :: SearchbaseSDK where
  "test_sdk = new_SearchbaseSDK ''test-api-token''"

definition test_options :: "string SearchOptions" where
  "test_options = \<lparr>opt_index = ''test-index'', opt_filters = None, opt_sort = None,
     opt_select = None, opt_limit = None, opt_offset = None\<rparr>"

definition products_options :: "string SearchOptions" where
  "products_options = \<lparr>opt_index = ''products'', opt_filters = Some [], opt_sort = None,
     opt_select = Some [], opt_limit = Some 20, opt_offset = Some 40\<rparr>"

text \<open>The two pages of the test \<^verbatim>\<open>should paginate through all results\<close>.\<close>

definition two_pages :: "nat \<Rightarrow> (string, string) fetch" where
  "two_pages = scripted [success 3 0 2 [''1'', ''2''], success 3 2 3 [''3'']]"

text \<open>A server whose second page holds one record more than its total announces.\<close>

definition overrun_pages :: "nat \<Rightarrow> (string, string) fetch" where
  "overrun_pages = scripted [success 3 0 2 [''1'', ''2''], success 3 2 4 [''3'', ''4'']]"

definition no_results :: "nat \<Rightarrow> (string, string) fetch" where
  "no_results = scripted [success 0 0 0 []]"

definition index_not_found :: "nat \<Rightarrow> (string, string) fetch" where
  "index_not_found = scripted [failure 500 (Some ''index not found'')]"

definition no_message :: "nat \<Rightarrow> (string, string) fetch" where
  "no_message = scripted [failure 500 None]"

definition empty_message :: "nat \<Rightarrow> (string, string) fetch" where
  "empty_message = scripted [failure 500 (Some [])]"

definition bad_gateway :: "nat \<Rightarrow> (string, string) fetch" where
  "bad_gateway = scripted [undecodable False 502]"

definition null_failure :: "nat \<Rightarrow> (string, string) fetch" where
  "null_failure = scripted [null_body False 500]"

definition html_page :: "nat \<Rightarrow> (string, string) fetch" where
  "html_page = scripted [undecodable True 200]"

definition fails_on_second_page :: "nat \<Rightarrow> (string, string) fetch" where
  "fails_on_second_page =
     scripted [success 3 0 2 [''1'', ''2''], failure 500 (Some ''index not found'')]"

text \<open>
  A server that always announces one match and returns no record, its range ending at
  the offset requested.
\<close>

definition requested_offset :: "'v RequestInit \<Rightarrow> int" where
  "requested_offset options = (case q_offset (req_body options) of None \<Rightarrow> 0 | Some n \<Rightarrow> n)"

definition stalled :: "nat \<Rightarrow> (string, string) fetch" where
  "stalled k url options =
     FetchResolves (success 1 (requested_offset options) (requested_offset options) [])"

text \<open>
  A server that returns one record per page and whose total is always one ahead of
  what has been returned.
\<close>

definition growing :: "nat \<Rightarrow> (string, string) fetch" where
  "growing k url options = FetchResolves (success (int k + 2) (int k) (int k + 1) [''record''])"

section \<open>Properties of the request body\<close>

lemma spread_array_id: "spread_array x = x"
  by (simp add: spread_array_def split: option.splits)

text \<open>
  C3 (amended). For every input and both revisions, the request body contains the
  index always; it contains filters, sort and select exactly when they are present,
  an empty array included; it omits limit when absent or zero and carries it
  otherwise; it omits offset when absent or zero and carries it when it is strictly
  greater than zero. A negative offset is sent by \<^verbatim>\<open>index.ts\<close> and omitted by
  \<^verbatim>\<open>part_001\<close>.
\<close>

theorem C3_request_body:
  "q_index (query rv options) = opt_index options
   \<and> q_filters (query rv options) = opt_filters options
   \<and> q_sort (query rv options) = opt_sort options
   \<and> q_select (query rv options) = opt_select options
   \<and> q_limit (query rv options)
       = (case opt_limit options of
            None \<Rightarrow> None
          | Some l \<Rightarrow> if l = 0 then None else Some l)
   \<and> q_offset (query rv options)
       = (case opt_offset options of
            None \<Rightarrow> None
          | Some n \<Rightarrow> if n = 0 \<or> (rv = Part_001 \<and> n < 0) then None else Some n)"
  by (cases rv)
    (auto simp: query_def spread_array_id spread_number_def spread_positive_def
      split: option.splits)

theorem C3_request_body_witness:
  "q_index (query Index_ts products_options) = ''products''
   \<and> q_filters (query Index_ts products_options) = Some []
   \<and> q_limit (query Index_ts products_options) = Some 20
   \<and> q_offset (query Index_ts products_options) = Some 40
   \<and> q_offset (query Part_001 (products_options\<lparr>opt_offset := Some 0\<rparr>)) = None"
  using C3_request_body [of Index_ts products_options]
    C3_request_body [of Part_001 "products_options\<lparr>opt_offset := Some 0\<rparr>"]
  by (simp add: products_options_def)

text \<open>
  The claim as stated fails: filters and select that are present and empty are sent
  as empty arrays, by both revisions.
\<close>

theorem C3_empty_arrays_counterexample:
  "q_filters (query Index_ts products_options) = Some []
   \<and> q_select (query Index_ts products_options) = Some []
   \<and> q_filters (query Part_001 products_options) = Some []
   \<and> q_select (query Part_001 products_options) = Some []"
  by (simp add: query_def spread_array_def products_options_def)

text \<open>
  C10 (amended). The two revisions of \<^verbatim>\<open>search\<close> build the same request body
  exactly for the inputs whose offset is absent or not negative.
\<close>

theorem C10_bodies_agree:
  "query Index_ts options = query Part_001 options
     \<longleftrightarrow> \<not> (\<exists>n<0. opt_offset options = Some n)"
  by (auto simp: query_def spread_number_def spread_positive_def split: option.splits if_splits)

text \<open>
  At offset \<open>-1\<close> the bodies differ: \<^verbatim>\<open>index.ts\<close> sends the offset,
  \<^verbatim>\<open>part_001\<close> omits it.
\<close>

theorem C10_negative_offset_counterexample:
  "q_offset (query Index_ts (products_options\<lparr>opt_offset := Some (- 1)\<rparr>)) = Some (- 1)
   \<and> q_offset (query Part_001 (products_options\<lparr>opt_offset := Some (- 1)\<rparr>)) = None
   \<and> query Index_ts (products_options\<lparr>opt_offset := Some (- 1)\<rparr>)
       \<noteq> query Part_001 (products_options\<lparr>opt_offset := Some (- 1)\<rparr>)"
  by (simp add: query_def spread_number_def spread_positive_def products_options_def)

section \<open>Properties of search\<close>

text \<open>What \<^verbatim>\<open>search\<close> does, by the outcome of the one call of the transport.\<close>

lemma search_cases:
  "search rv sdk fetch options =
     (case fetch (search_url sdk) (requestOptions rv sdk options) of
        FetchRejects m \<Rightarrow> Inl (SearchError (''Network error: '' @ m))
      | FetchResolves response \<Rightarrow>
          if ok response
          then (case json response of Inl m \<Rightarrow> Inl (OtherError m) | Inr data \<Rightarrow> Inr data)
          else (case json response of
                  Inl m \<Rightarrow> Inl (SearchError (''Network error: '' @ m))
                | Inr JsonNull \<Rightarrow>
                    Inl (SearchError (''Network error: '' @ null_property_error ''message''))
                | Inr (JsonObject errorData) \<Rightarrow>
                    Inl (SearchError (error_message errorData (status response)))))"
  by (simp add: search_def fetchWithErrorHandling_def try_fetch_def catch_error_def
      split: fetch_result.splits sum.splits json_value.splits)

lemma search_success:
  assumes "search rv sdk fetch options = Inr data"
  shows "\<exists>response. fetch (search_url sdk) (requestOptions rv sdk options) = FetchResolves response
           \<and> ok response \<and> json response = Inr data"
  using assms
  by (auto simp: search_cases split: fetch_result.splits sum.splits if_splits json_value.splits)

text \<open>Every failure inside \<^verbatim>\<open>fetchWithErrorHandling\<close> is a \<^verbatim>\<open>SearchError\<close>.\<close>

lemma fetchWithErrorHandling_error:
  assumes "fetchWithErrorHandling fetch url options = Inl error"
  shows "\<exists>m. error = SearchError m"
  using assms
  by (auto simp: fetchWithErrorHandling_def catch_error_def split: sum.splits js_error.splits)

lemma search_network_error:
  assumes "fetch (search_url sdk) (requestOptions rv sdk options) = FetchRejects m"
  shows "search rv sdk fetch options = Inl (SearchError (''Network error: '' @ m))"
  using assms by (simp add: search_cases)

text \<open>
  C8. On a response with a success status whose body decodes, \<^verbatim>\<open>search\<close>
  returns the decoded body itself: records, range and total are those decoded.
\<close>

theorem C8_success_body_unchanged:
  assumes "fetch (search_url sdk) (requestOptions rv sdk options) = FetchResolves response"
    and "ok response"
    and "json response = Inr data"
  shows "search rv sdk fetch options = Inr data"
  using assms by (simp add: search_cases)

theorem C8_success_body_unchanged_witness:
  "search Part_001 test_sdk (two_pages 0) test_options
     = Inr (JsonObject \<lparr>message = None, total = Some 3,
            page_range = \<lparr>range_start = 0, range_end = 2\<rparr>, records = [''1'', ''2'']\<rparr>)"
  using C8_success_body_unchanged [of "two_pages 0" test_sdk Part_001 test_options
      "success 3 0 2 [''1'', ''2'']"
      "JsonObject \<lparr>message = None, total = Some 3,
        page_range = \<lparr>range_start = 0, range_end = 2\<rparr>, records = [''1'', ''2'']\<rparr>"]
  by (simp add: two_pages_def scripted_def success_def)

text \<open>
  C4 (amended). On a response with a failure status, \<^verbatim>\<open>search\<close> fails with a
  \<^verbatim>\<open>SearchError\<close>. Its message is the message of the body when the body decodes
  to a value that holds a message that is not empty; the generic
  \<^verbatim>\<open>HTTP error! status: {code}\<close> when the body decodes to a value other than
  \<^verbatim>\<open>null\<close> whose message is absent or empty; and \<^verbatim>\<open>Network error: \<close>
  followed by the message of the error thrown when the body does not decode (the
  decoding error) or decodes to \<^verbatim>\<open>null\<close> (the \<^verbatim>\<open>TypeError\<close> of reading
  \<^verbatim>\<open>message\<close> of \<^verbatim>\<open>null\<close>).
\<close>

theorem C4_failure_status:
  assumes "fetch (search_url sdk) (requestOptions rv sdk options) = FetchResolves response"
    and "\<not> ok response"
  shows "search rv sdk fetch options =
     Inl (SearchError
       (case json response of
          Inl m \<Rightarrow> ''Network error: '' @ m
        | Inr JsonNull \<Rightarrow> ''Network error: '' @ null_property_error ''message''
        | Inr (JsonObject errorData) \<Rightarrow>
            (case message errorData of
               None \<Rightarrow> http_error_message (status response)
             | Some m \<Rightarrow> if m = [] then http_error_message (status response) else m)))"
  using assms
  by (simp add: search_cases error_message_def
      split: sum.splits option.splits json_value.splits)

theorem C4_failure_status_witness:
  "search Index_ts test_sdk (index_not_found 0) test_options
     = Inl (SearchError ''index not found'')
   \<and> search Index_ts test_sdk (no_message 0) test_options
     = Inl (SearchError ''HTTP error! status: 500'')
   \<and> search Index_ts test_sdk (null_failure 0) test_options
     = Inl (SearchError ''Network error: Cannot read properties of null (reading 'message')'')"
proof -
  have generic: "http_error_message 500 = ''HTTP error! status: 500''"
    by code_simp
  show ?thesis
    using C4_failure_status [of "index_not_found 0" test_sdk
        Index_ts test_options "failure 500 (Some ''index not found'')"]
      C4_failure_status [of "no_message 0" test_sdk Index_ts
        test_options "failure 500 None"]
      C4_failure_status [of "null_failure 0" test_sdk Index_ts
        test_options "null_body False 500"]
    by (simp add: index_not_found_def no_message_def null_failure_def scripted_def
        failure_def null_body_def null_property_error_def generic)
qed

text \<open>
  The claim as stated fails on a failure response whose body is not JSON: no message
  can be parsed from it, and the error carries the decoding error behind
  \<^verbatim>\<open>Network error: \<close>, not the generic message with the status. It also fails
  on a body whose message is the empty string: the error carries the generic message.
\<close>

theorem C4_undecodable_body_counterexample:
  "search Index_ts test_sdk (bad_gateway 0) test_options
     = Inl (SearchError ''Network error: Unexpected token < in JSON at position 0'')
   \<and> search Index_ts test_sdk (bad_gateway 0) test_options
     \<noteq> Inl (SearchError (http_error_message 502))
   \<and> search Index_ts test_sdk (empty_message 0) test_options
     = Inl (SearchError ''HTTP error! status: 500'')"
  by code_simp

text \<open>
  C5. The claim holds of every failure inside \<^verbatim>\<open>fetchWithErrorHandling\<close>, and
  the code breaks it on a response with a success status whose body does not decode:
  \<^verbatim>\<open>search\<close> calls \<^verbatim>\<open>response.json()\<close> outside of the \<^verbatim>\<open>try\<close> block, so
  the decoding error leaves \<^verbatim>\<open>search\<close>, and \<^verbatim>\<open>searchAll\<close>, as it is: an
  error that is not a \<^verbatim>\<open>SearchError\<close>.
\<close>

theorem C5_success_body_decode_error_escapes:
  "search Index_ts test_sdk (html_page 0) test_options
     = Inl (OtherError ''Unexpected token < in JSON at position 0'')
   \<and> search Part_001 test_sdk (html_page 0) test_options
     = Inl (OtherError ''Unexpected token < in JSON at position 0'')
   \<and> finished (searchAll 1 Index_ts test_sdk html_page test_options)
     = Some (Threw (OtherError ''Unexpected token < in JSON at position 0''))"
  by code_simp

section \<open>Properties of searchAll\<close>

text \<open>The shape of a traversal, and a traversal of \<open>n + m\<close> pages as one of \<open>n\<close> pages and then one of \<open>m\<close>.\<close>

lemma yielded_simps [simp]:
  "requests (yielded c r t) = c # requests t"
  "responses (yielded c r t) = r # responses t"
  "batches (yielded c r t) = records r # batches t"
  "finished (yielded c r t) = finished t"
  by (simp_all add: yielded_def)

lemma search_outcome [case_names Fails Null Page]:
  fixes x :: "js_error + 'r json_value"
  obtains e where "x = Inl e" | "x = Inr JsonNull" | response where "x = Inr (JsonObject response)"
proof (cases x)
  case (Inl e)
  then show ?thesis using that(1) by simp
next
  case (Inr v)
  then show ?thesis using that(2,3) by (cases v) simp_all
qed

lemma loop_shape:
  "batches (searchAll_loop n rv sdk fetch options k offset tf)
     = map records (responses (searchAll_loop n rv sdk fetch options k offset tf))
   \<and> length (requests (searchAll_loop n rv sdk fetch options k offset tf))
     = (case finished (searchAll_loop n rv sdk fetch options k offset tf) of
          Some (Threw e) \<Rightarrow> Suc (length (responses (searchAll_loop n rv sdk fetch options k offset tf)))
        | _ \<Rightarrow> length (responses (searchAll_loop n rv sdk fetch options k offset tf)))
   \<and> length (requests (searchAll_loop n rv sdk fetch options k offset tf)) \<le> n
   \<and> (finished (searchAll_loop n rv sdk fetch options k offset tf) = None
        \<longrightarrow> length (responses (searchAll_loop n rv sdk fetch options k offset tf)) = n)"
proof (induction n arbitrary: k offset tf)
  case 0
  show ?case by simp
next
  case (Suc n)
  show ?case
  proof (cases "search rv sdk (fetch k) (page_call options offset)" rule: search_outcome)
    case (Fails e)
    then show ?thesis by simp
  next
    case Null
    then show ?thesis by simp
  next
    case (Page response)
    show ?thesis
      using Suc.IH [of "Suc k" "range_end (page_range response)" "tf + length (records response)"] Page
      by (auto split: option.splits completion.splits)
  qed
qed

lemma loop_add:
  "searchAll_loop (n + m) rv sdk fetch options k offset tf =
     (if finished (searchAll_loop n rv sdk fetch options k offset tf) = None
      then then_traversal (searchAll_loop n rv sdk fetch options k offset tf)
             (searchAll_loop m rv sdk fetch options (k + n)
                (next_offset offset (searchAll_loop n rv sdk fetch options k offset tf))
                (tf + fetched (searchAll_loop n rv sdk fetch options k offset tf)))
      else searchAll_loop n rv sdk fetch options k offset tf)"
proof (induction n arbitrary: k offset tf)
  case 0
  show ?case by (simp add: then_traversal_def next_offset_def fetched_def)
next
  case (Suc n)
  show ?case
  proof (cases "search rv sdk (fetch k) (page_call options offset)" rule: search_outcome)
    case (Fails e)
    then show ?thesis by simp
  next
    case Null
    then show ?thesis by simp
  next
    case (Page response)
    let ?t = "searchAll_loop n rv sdk fetch options (Suc k) (range_end (page_range response))
                (tf + length (records response))"
    have shape: "finished ?t = None \<longrightarrow> length (responses ?t) = n"
      using loop_shape by blast
    show ?thesis
      using Suc.IH [of "Suc k" "range_end (page_range response)" "tf + length (records response)"]
        Page shape
      by (auto simp: then_traversal_def next_offset_def fetched_def yielded_def add.assoc)
  qed
qed

lemma loop_stable:
  assumes "finished (searchAll_loop n rv sdk fetch options k offset tf) \<noteq> None"
  shows "searchAll_loop (n + m) rv sdk fetch options k offset tf
           = searchAll_loop n rv sdk fetch options k offset tf"
  using assms by (auto simp: loop_add)

text \<open>The requests of a traversal follow the responses.\<close>

lemma loop_first_request:
  "requests (searchAll_loop (Suc n) rv sdk fetch options k offset tf) \<noteq> []
   \<and> hd (requests (searchAll_loop (Suc n) rv sdk fetch options k offset tf)) = page_call options offset"
  by (simp split: sum.splits json_value.splits)

lemma loop_offsets:
  "Suc i < length (requests (searchAll_loop n rv sdk fetch options k offset tf)) \<Longrightarrow>
   requests (searchAll_loop n rv sdk fetch options k offset tf) ! Suc i
     = page_call options
         (range_end (page_range (responses (searchAll_loop n rv sdk fetch options k offset tf) ! i)))"
proof (induction n arbitrary: k offset tf i)
  case 0
  then show ?case by simp
next
  case (Suc n)
  show ?case
  proof (cases "search rv sdk (fetch k) (page_call options offset)" rule: search_outcome)
    case (Fails e)
    with Suc.prems show ?thesis by simp
  next
    case Null
    with Suc.prems show ?thesis by simp
  next
    case (Page response)
    let ?t = "searchAll_loop n rv sdk fetch options (Suc k) (range_end (page_range response))
                (tf + length (records response))"
    show ?thesis
    proof (cases "int (tf + length (records response)) < total_or_zero (total response)")
      case False
      with Suc.prems Page show ?thesis by simp
    next
      case True
      show ?thesis
      proof (cases i)
        case 0
        from Suc.prems Page True 0 have nonempty: "requests ?t \<noteq> []" by auto
        then obtain n' where "n = Suc n'"
          by (cases n) auto
        then have "hd (requests ?t) = page_call options (range_end (page_range response))"
          using loop_first_request by blast
        with nonempty have "requests ?t ! 0 = page_call options (range_end (page_range response))"
          by (simp add: hd_conv_nth)
        with Page True 0 show ?thesis by simp
      next
        case (Suc j)
        with Suc.prems Page True have "Suc j < length (requests ?t)" by simp
        from Suc.IH [OF this] Page True Suc show ?thesis by simp
      qed
    qed
  qed
qed

lemma loop_responses:
  "i < length (responses (searchAll_loop n rv sdk fetch options k offset tf)) \<Longrightarrow>
   search rv sdk (fetch (k + i)) (requests (searchAll_loop n rv sdk fetch options k offset tf) ! i)
     = Inr (JsonObject (responses (searchAll_loop n rv sdk fetch options k offset tf) ! i))"
proof (induction n arbitrary: k offset tf i)
  case 0
  then show ?case by simp
next
  case (Suc n)
  show ?case
  proof (cases "search rv sdk (fetch k) (page_call options offset)" rule: search_outcome)
    case (Fails e)
    with Suc.prems show ?thesis by simp
  next
    case Null
    with Suc.prems show ?thesis by simp
  next
    case (Page response)
    show ?thesis
    proof (cases i)
      case 0
      with Page show ?thesis by simp
    next
      case (Suc j)
      with Suc.prems Page
      have cont: "int (tf + length (records response)) < total_or_zero (total response)"
        by (auto split: if_splits)
      with Suc.prems Page Suc
      have "j < length (responses (searchAll_loop n rv sdk fetch options (Suc k)
                (range_end (page_range response)) (tf + length (records response))))"
        by simp
      from Suc.IH [OF this] Page cont Suc show ?thesis by simp
    qed
  qed
qed

lemma loop_returned:
  "finished (searchAll_loop n rv sdk fetch options k offset tf) = Some Returned \<Longrightarrow>
   responses (searchAll_loop n rv sdk fetch options k offset tf) \<noteq> []
   \<and> total_or_zero (total (last (responses (searchAll_loop n rv sdk fetch options k offset tf))))
       \<le> int (tf + length (concat (batches (searchAll_loop n rv sdk fetch options k offset tf))))"
proof (induction n arbitrary: k offset tf)
  case 0
  then show ?case by simp
next
  case (Suc n)
  show ?case
  proof (cases "search rv sdk (fetch k) (page_call options offset)" rule: search_outcome)
    case (Fails e)
    with Suc.prems show ?thesis by simp
  next
    case Null
    with Suc.prems show ?thesis by simp
  next
    case (Page response)
    show ?thesis
    proof (cases "int (tf + length (records response)) < total_or_zero (total response)")
      case False
      with Page show ?thesis by simp
    next
      case True
      with Suc.prems Page
      have "finished (searchAll_loop n rv sdk fetch options (Suc k)
                (range_end (page_range response)) (tf + length (records response))) = Some Returned"
        by simp
      from Suc.IH [OF this] Page True show ?thesis by (simp add: add.assoc)
    qed
  qed
qed

text \<open>
  C1 (amended). In every traversal, each page request after the first is the call of
  \<^verbatim>\<open>search\<close> with the offset set to the \<^verbatim>\<open>range.end\<close> of the response
  before it (on the wire the offset is left out when that value is zero, and by
  \<^verbatim>\<open>part_001\<close> also when it is negative); and when the traversal returns, the
  number of records in all batches yielded is at least the total of the last response
  (an absent total counting as zero).
\<close>

theorem C1_offsets_and_length:
  "(\<forall>i. Suc i < length (requests (searchAll n rv sdk fetch options)) \<longrightarrow>
        search rv sdk (fetch i) (requests (searchAll n rv sdk fetch options) ! i)
          = Inr (JsonObject (responses (searchAll n rv sdk fetch options) ! i))
        \<and> opt_offset (requests (searchAll n rv sdk fetch options) ! Suc i)
          = Some (range_end (page_range (responses (searchAll n rv sdk fetch options) ! i)))
        \<and> q_offset (query rv (requests (searchAll n rv sdk fetch options) ! Suc i))
          = (if range_end (page_range (responses (searchAll n rv sdk fetch options) ! i)) = 0
                \<or> (rv = Part_001
                    \<and> range_end (page_range (responses (searchAll n rv sdk fetch options) ! i)) < 0)
             then None
             else Some (range_end (page_range (responses (searchAll n rv sdk fetch options) ! i)))))
   \<and> (finished (searchAll n rv sdk fetch options) = Some Returned \<longrightarrow>
        responses (searchAll n rv sdk fetch options) \<noteq> []
        \<and> total_or_zero (total (last (responses (searchAll n rv sdk fetch options))))
            \<le> int (length (concat (batches (searchAll n rv sdk fetch options)))))"
proof -
  let ?t = "searchAll n rv sdk fetch options"
  have shape: "length (requests ?t) \<le> Suc (length (responses ?t))"
    using loop_shape [of n rv sdk fetch options 0 0 0]
    by (auto simp: searchAll_def split: option.splits completion.splits)
  have "search rv sdk (fetch i) (requests ?t ! i) = Inr (JsonObject (responses ?t ! i))
        \<and> opt_offset (requests ?t ! Suc i) = Some (range_end (page_range (responses ?t ! i)))
        \<and> q_offset (query rv (requests ?t ! Suc i))
          = (if range_end (page_range (responses ?t ! i)) = 0
                \<or> (rv = Part_001 \<and> range_end (page_range (responses ?t ! i)) < 0)
             then None
             else Some (range_end (page_range (responses ?t ! i))))"
    if "Suc i < length (requests ?t)" for i
  proof -
    from that shape have "i < length (responses ?t)" by simp
    then have "search rv sdk (fetch i) (requests ?t ! i) = Inr (JsonObject (responses ?t ! i))"
      using loop_responses [of i n rv sdk fetch options 0 0 0] by (simp add: searchAll_def)
    moreover have "requests ?t ! Suc i
        = page_call options (range_end (page_range (responses ?t ! i)))"
      using that loop_offsets [of i n rv sdk fetch options 0 0 0] by (simp add: searchAll_def)
    ultimately show ?thesis
      by (cases rv)
        (simp_all add: page_call_def query_def spread_number_def spread_positive_def)
  qed
  moreover have "responses ?t \<noteq> []
        \<and> total_or_zero (total (last (responses ?t))) \<le> int (length (concat (batches ?t)))"
    if "finished ?t = Some Returned"
    using that loop_returned [of n rv sdk fetch options 0 0 0] by (simp add: searchAll_def)
  ultimately show ?thesis by blast
qed

theorem C1_offsets_and_length_witness:
  "Suc 0 < length (requests (searchAll 2 Part_001 test_sdk two_pages test_options))
   \<and> opt_offset (requests (searchAll 2 Part_001 test_sdk two_pages test_options) ! Suc 0) = Some 2
   \<and> finished (searchAll 2 Part_001 test_sdk two_pages test_options) = Some Returned
   \<and> total_or_zero (total (last (responses (searchAll 2 Part_001 test_sdk two_pages test_options))))
       \<le> int (length (concat (batches (searchAll 2 Part_001 test_sdk two_pages test_options))))"
proof -
  have run: "searchAll 2 Part_001 test_sdk two_pages test_options =
     \<lparr>requests = [page_call test_options 0, page_call test_options 2],
      responses = [\<lparr>message = None, total = Some 3,
                     page_range = \<lparr>range_start = 0, range_end = 2\<rparr>, records = [''1'', ''2'']\<rparr>,
                   \<lparr>message = None, total = Some 3,
                     page_range = \<lparr>range_start = 2, range_end = 3\<rparr>, records = [''3'']\<rparr>],
      batches = [[''1'', ''2''], [''3'']], finished = Some Returned\<rparr>"
    by code_simp
  show ?thesis
    using C1_offsets_and_length [of 2 Part_001 test_sdk two_pages test_options]
    by (simp add: run)
qed

text \<open>
  The claim as stated fails: the records yielded can be more than the final total.
  The second page below brings the count to four while the total it announces is three.
\<close>

theorem C1_overrun_counterexample:
  "finished (searchAll 2 Index_ts test_sdk overrun_pages test_options) = Some Returned
   \<and> total (last (responses (searchAll 2 Index_ts test_sdk overrun_pages test_options))) = Some 3
   \<and> length (concat (batches (searchAll 2 Index_ts test_sdk overrun_pages test_options))) = 4"
  by code_simp

text \<open>
  C2 (amended). If the response to the first page reports a total of zero,
  \<^verbatim>\<open>searchAll\<close> fetches no further page, yields exactly one batch, the records
  of that response, and ends without error.
\<close>

theorem C2_total_zero_on_first_page:
  assumes "search rv sdk (fetch 0) (page_call options 0) = Inr (JsonObject response)"
    and "total response = Some 0"
  shows "searchAll (Suc n) rv sdk fetch options =
     \<lparr>requests = [page_call options 0], responses = [response],
      batches = [records response], finished = Some Returned\<rparr>"
  using assms by (simp add: searchAll_def total_or_zero_def)

theorem C2_total_zero_on_first_page_witness:
  "searchAll (Suc 4) Index_ts test_sdk no_results test_options =
     \<lparr>requests = [page_call test_options 0],
      responses = [\<lparr>message = None, total = Some 0,
                     page_range = \<lparr>range_start = 0, range_end = 0\<rparr>, records = []\<rparr>],
      batches = [[]], finished = Some Returned\<rparr>"
proof -
  have first: "search Index_ts test_sdk (no_results 0) (page_call test_options 0)
      = Inr (JsonObject \<lparr>message = None, total = Some 0,
             page_range = \<lparr>range_start = 0, range_end = 0\<rparr>, records = []\<rparr>)"
    by code_simp
  show ?thesis
    using first
      C2_total_zero_on_first_page [of Index_ts test_sdk no_results test_options
        "\<lparr>message = None, total = Some 0,
           page_range = \<lparr>range_start = 0, range_end = 0\<rparr>, records = []\<rparr>" 4]
    by simp
qed

text \<open>
  The claim as stated fails: the loop is a \<^verbatim>\<open>do ... while\<close>, which yields the
  records of the first page before it looks at the total. With no match the generator
  yields one batch, the empty array.
\<close>

theorem C2_one_batch_counterexample:
  "batches (searchAll 1 Index_ts test_sdk no_results test_options) = [[]]
   \<and> length (batches (searchAll 1 Index_ts test_sdk no_results test_options)) = 1
   \<and> finished (searchAll 1 Index_ts test_sdk no_results test_options) = Some Returned"
  by code_simp

text \<open>
  C6. When the fetch of a page fails during a traversal, whatever the number \<open>n\<close> of
  pages fetched before it, the traversal ends there with the error thrown: one request
  is made for the failing page and none after it, the \<open>n\<close> batches yielded before
  it stay as they were yielded (the records of the \<open>n\<close> responses), and the failing
  page adds no batch.
\<close>

theorem C6_failure_ends_traversal:
  assumes "finished (searchAll n rv sdk fetch options) = None"
    and "search rv sdk (fetch n)
           (page_call options (next_offset 0 (searchAll n rv sdk fetch options))) = Inl error"
  shows "searchAll (Suc n + m) rv sdk fetch options =
     \<lparr>requests = requests (searchAll n rv sdk fetch options)
                  @ [page_call options (next_offset 0 (searchAll n rv sdk fetch options))],
      responses = responses (searchAll n rv sdk fetch options),
      batches = batches (searchAll n rv sdk fetch options),
      finished = Some (Threw error)\<rparr>
    \<and> length (batches (searchAll n rv sdk fetch options)) = n
    \<and> batches (searchAll n rv sdk fetch options)
        = map records (responses (searchAll n rv sdk fetch options))"
proof -
  let ?t = "searchAll_loop n rv sdk fetch options 0 0 0"
  have none: "finished ?t = None"
    using assms(1) by (simp add: searchAll_def)
  have fails: "search rv sdk (fetch n) (page_call options (next_offset 0 ?t)) = Inl error"
    using assms(2) by (simp add: searchAll_def)
  have shape: "batches ?t = map records (responses ?t)" "length (responses ?t) = n"
    using loop_shape [of n rv sdk fetch options 0 0 0] none by simp_all
  have "searchAll_loop (n + Suc m) rv sdk fetch options 0 0 0
      = then_traversal ?t
          (searchAll_loop (Suc m) rv sdk fetch options n (next_offset 0 ?t) (fetched ?t))"
    using loop_add [of n "Suc m" rv sdk fetch options 0 0 0] none by simp
  also have "\<dots> = \<lparr>requests = requests ?t @ [page_call options (next_offset 0 ?t)],
      responses = responses ?t, batches = batches ?t, finished = Some (Threw error)\<rparr>"
    using fails by (simp add: then_traversal_def)
  finally show ?thesis
    using shape by (simp add: searchAll_def)
qed

theorem C6_failure_ends_traversal_witness:
  "searchAll (Suc (Suc 0) + 3) Index_ts test_sdk fails_on_second_page test_options =
     \<lparr>requests = [page_call test_options 0, page_call test_options 2],
      responses = [\<lparr>message = None, total = Some 3,
                     page_range = \<lparr>range_start = 0, range_end = 2\<rparr>, records = [''1'', ''2'']\<rparr>],
      batches = [[''1'', ''2'']],
      finished = Some (Threw (SearchError ''index not found''))\<rparr>"
proof -
  have first: "searchAll (Suc 0) Index_ts test_sdk fails_on_second_page test_options =
     \<lparr>requests = [page_call test_options 0],
      responses = [\<lparr>message = None, total = Some 3,
                     page_range = \<lparr>range_start = 0, range_end = 2\<rparr>, records = [''1'', ''2'']\<rparr>],
      batches = [[''1'', ''2'']], finished = None\<rparr>"
    by code_simp
  have second: "search Index_ts test_sdk (fails_on_second_page (Suc 0)) (page_call test_options 2)
      = Inl (SearchError ''index not found'')"
    by code_simp
  show ?thesis
    using C6_failure_ends_traversal [of "Suc 0" Index_ts test_sdk fails_on_second_page test_options
        "SearchError ''index not found''" 3] second
    by (simp add: first next_offset_def)
qed

text \<open>
  C7. Every page request of \<^verbatim>\<open>searchAll\<close> carries the limit 100, in the call of
  \<^verbatim>\<open>search\<close> and in the request body; the first request of a traversal has
  offset 0, which the request body leaves out.
\<close>

theorem C7_page_size_and_first_offset:
  "(\<forall>call \<in> set (requests (searchAll n rv sdk fetch options)).
        opt_limit call = Some 100 \<and> q_limit (query rv call) = Some 100)
   \<and> (0 < n \<longrightarrow>
        requests (searchAll n rv sdk fetch options) \<noteq> []
        \<and> opt_offset (hd (requests (searchAll n rv sdk fetch options))) = Some 0
        \<and> q_offset (query rv (hd (requests (searchAll n rv sdk fetch options)))) = None)"
proof -
  have limits: "\<forall>call \<in> set (requests (searchAll_loop n rv sdk fetch options k offset tf)).
      \<exists>offset'. call = page_call options offset'" for k offset tf
  proof (induction n arbitrary: k offset tf)
    case 0
    show ?case by simp
  next
    case (Suc n)
    show ?case
      using Suc.IH by (auto split: sum.splits json_value.splits)
  qed
  have "opt_limit call = Some 100 \<and> q_limit (query rv call) = Some 100"
    if "call \<in> set (requests (searchAll n rv sdk fetch options))" for call
  proof -
    from that limits [of 0 0 0] obtain offset' where "call = page_call options offset'"
      by (auto simp: searchAll_def)
    then have "opt_limit call = Some 100"
      by (simp add: page_call_def batchSize_def)
    then show ?thesis by (simp add: query_def spread_number_def)
  qed
  moreover have "requests (searchAll n rv sdk fetch options) \<noteq> []
        \<and> opt_offset (hd (requests (searchAll n rv sdk fetch options))) = Some 0
        \<and> q_offset (query rv (hd (requests (searchAll n rv sdk fetch options)))) = None"
    if "0 < n"
  proof -
    from that obtain m where "n = Suc m" by (cases n) auto
    then show ?thesis
      using loop_first_request [of m rv sdk fetch options 0 0 0]
      by (cases rv) (simp_all add: searchAll_def page_call_def query_def spread_number_def spread_positive_def)
  qed
  ultimately show ?thesis by blast
qed

theorem C7_page_size_and_first_offset_witness:
  "opt_limit (page_call test_options 2) = Some 100
   \<and> q_limit (query Part_001 (page_call test_options 2)) = Some 100
   \<and> opt_offset (hd (requests (searchAll 2 Part_001 test_sdk two_pages test_options))) = Some 0
   \<and> q_offset (query Part_001 (hd (requests (searchAll 2 Part_001 test_sdk two_pages test_options))))
       = None"
proof -
  have run: "requests (searchAll 2 Part_001 test_sdk two_pages test_options)
      = [page_call test_options 0, page_call test_options 2]"
    by code_simp
  show ?thesis
    using C7_page_size_and_first_offset [of 2 Part_001 test_sdk two_pages test_options]
    by (simp add: run)
qed

text \<open>Termination.\<close>

lemma loop_ends:
  "0 < n \<Longrightarrow> T \<le> int (tf + n) \<Longrightarrow>
   \<forall>d \<in> set (responses (searchAll_loop n rv sdk fetch options k offset tf)).
     records d \<noteq> [] \<and> total_or_zero (total d) \<le> T \<Longrightarrow>
   finished (searchAll_loop n rv sdk fetch options k offset tf) \<noteq> None"
proof (induction n arbitrary: k offset tf)
  case 0
  then show ?case by simp
next
  case (Suc n)
  show ?case
  proof (cases "search rv sdk (fetch k) (page_call options offset)" rule: search_outcome)
    case (Fails e)
    then show ?thesis by simp
  next
    case Null
    then show ?thesis by simp
  next
    case (Page response)
    let ?t = "searchAll_loop n rv sdk fetch options (Suc k) (range_end (page_range response))
                (tf + length (records response))"
    from Suc.prems(3) Page
    have page: "records response \<noteq> []" "total_or_zero (total response) \<le> T"
      by (auto split: if_splits)
    then have more: "0 < length (records response)" by simp
    show ?thesis
    proof (cases "int (tf + length (records response)) < total_or_zero (total response)")
      case False
      with Page show ?thesis by simp
    next
      case True
      with page(2) Suc.prems(2) more have "0 < n" "T \<le> int (tf + length (records response) + n)"
        by linarith+
      moreover from Suc.prems(3) Page True
      have "\<forall>d \<in> set (responses ?t). records d \<noteq> [] \<and> total_or_zero (total d) \<le> T"
        by simp
      ultimately have "finished ?t \<noteq> None"
        by (rule Suc.IH)
      with Page True show ?thesis by simp
    qed
  qed
qed

text \<open>Once a traversal has ended, no fuel shows a response that it does not hold.\<close>

lemma responses_of_ended:
  assumes "finished (searchAll_loop N rv sdk fetch options k offset tf) \<noteq> None"
  shows "set (responses (searchAll_loop n rv sdk fetch options k offset tf))
           \<subseteq> set (responses (searchAll_loop N rv sdk fetch options k offset tf))"
proof (cases "n \<le> N")
  case True
  then obtain m where "N = n + m"
    using le_Suc_ex by blast
  then show ?thesis
    using loop_add [of n m rv sdk fetch options k offset tf]
    by (auto simp: then_traversal_def split: if_splits)
next
  case False
  then obtain m where "n = N + m"
    by (metis le_add_diff_inverse nat_le_linear)
  then show ?thesis
    using loop_stable [OF assms, of m] by simp
qed

lemma stalled_loop:
  "finished (searchAll_loop n rv sdk stalled options k offset 0) = None
   \<and> length (requests (searchAll_loop n rv sdk stalled options k offset 0)) = n"
proof (induction n arbitrary: k offset)
  case 0
  show ?case by simp
next
  case (Suc n)
  have "search rv sdk (stalled k) (page_call options offset)
      = Inr (JsonObject \<lparr>message = None, total = Some 1,
             page_range =
               \<lparr>range_start = requested_offset (requestOptions rv sdk (page_call options offset)),
                range_end = requested_offset (requestOptions rv sdk (page_call options offset))\<rparr>,
             records = []\<rparr>)"
    by (simp add: search_cases stalled_def success_def)
  then show ?case
    using Suc.IH by (simp add: total_or_zero_def)
qed

lemma growing_loop:
  "tf \<le> k \<Longrightarrow>
   finished (searchAll_loop n rv sdk growing options k offset tf) = None
   \<and> length (requests (searchAll_loop n rv sdk growing options k offset tf)) = n"
proof (induction n arbitrary: k offset tf)
  case 0
  show ?case by simp
next
  case (Suc n)
  have "search rv sdk (growing k) (page_call options offset)
      = Inr (JsonObject \<lparr>message = None, total = Some (int k + 2),
             page_range = \<lparr>range_start = int k, range_end = int k + 1\<rparr>,
             records = [''record'']\<rparr>)"
    by (simp add: search_cases growing_def success_def)
  then show ?case
    using Suc.IH [of "tf + 1" "Suc k" "int k + 1"] Suc.prems by (simp add: total_or_zero_def)
qed

text \<open>
  C9 (amended). If every successful response that the traversal receives holds at least
  one record and reports a total of at most \<open>T\<close>, the traversal ends after at most
  \<open>max 1 T\<close> fetches. Against a server that always reports a positive total with no
  record, its range ending at the offset requested, the traversal never ends: after
  any number of fetches the next step is one more fetch.
\<close>

theorem C9_termination:
  "((\<forall>n. \<forall>d \<in> set (responses (searchAll n rv sdk fetch options)).
        records d \<noteq> [] \<and> total_or_zero (total d) \<le> T)
     \<longrightarrow> finished (searchAll (max 1 (nat T)) rv sdk fetch options) \<noteq> None
         \<and> (\<forall>n. length (requests (searchAll n rv sdk fetch options)) \<le> max 1 (nat T)))
   \<and> (\<forall>n. finished (searchAll n rv sdk stalled options') = None
          \<and> length (requests (searchAll n rv sdk stalled options')) = n)"
proof -
  have "finished (searchAll (max 1 (nat T)) rv sdk fetch options) \<noteq> None
         \<and> (\<forall>n. length (requests (searchAll n rv sdk fetch options)) \<le> max 1 (nat T))"
    if pre: "\<forall>n. \<forall>d \<in> set (responses (searchAll n rv sdk fetch options)).
        records d \<noteq> [] \<and> total_or_zero (total d) \<le> T"
  proof -
    let ?N = "max 1 (nat T)"
    from pre have pages: "\<forall>d \<in> set (responses (searchAll_loop ?N rv sdk fetch options 0 0 0)).
        records d \<noteq> [] \<and> total_or_zero (total d) \<le> T"
      by (simp add: searchAll_def)
    have ends: "finished (searchAll_loop ?N rv sdk fetch options 0 0 0) \<noteq> None"
      by (rule loop_ends [OF _ _ pages]) simp_all
    have "length (requests (searchAll n rv sdk fetch options)) \<le> ?N" for n
    proof (cases "n \<le> ?N")
      case True
      then show ?thesis
        using loop_shape [of n rv sdk fetch options 0 0 0] by (simp add: searchAll_def)
    next
      case False
      then obtain m where "n = ?N + m"
        by (metis le_add_diff_inverse nat_le_linear)
      then have "searchAll n rv sdk fetch options = searchAll ?N rv sdk fetch options"
        using loop_stable [OF ends, of m] by (simp add: searchAll_def)
      then show ?thesis
        using loop_shape [of ?N rv sdk fetch options 0 0 0] by (simp add: searchAll_def)
    qed
    with ends show ?thesis by (simp add: searchAll_def)
  qed
  moreover have "finished (searchAll n rv sdk stalled options') = None
          \<and> length (requests (searchAll n rv sdk stalled options')) = n" for n
    using stalled_loop [of n rv sdk options' 0 0] by (simp add: searchAll_def)
  ultimately show ?thesis by blast
qed

theorem C9_termination_witness:
  "finished (searchAll 3 Part_001 test_sdk two_pages test_options) \<noteq> None
   \<and> length (requests (searchAll 7 Part_001 test_sdk two_pages test_options)) \<le> 3
   \<and> finished (searchAll 7 Part_001 test_sdk stalled test_options) = None"
proof -
  have run: "searchAll_loop 2 Part_001 test_sdk two_pages test_options 0 0 0 =
     \<lparr>requests = [page_call test_options 0, page_call test_options 2],
      responses = [\<lparr>message = None, total = Some 3,
                     page_range = \<lparr>range_start = 0, range_end = 2\<rparr>, records = [''1'', ''2'']\<rparr>,
                   \<lparr>message = None, total = Some 3,
                     page_range = \<lparr>range_start = 2, range_end = 3\<rparr>, records = [''3'']\<rparr>],
      batches = [[''1'', ''2''], [''3'']], finished = Some Returned\<rparr>"
    by code_simp
  then have ended:
    "finished (searchAll_loop 2 Part_001 test_sdk two_pages test_options 0 0 0) \<noteq> None"
    by simp
  have pre: "\<forall>n. \<forall>d \<in> set (responses (searchAll n Part_001 test_sdk two_pages test_options)).
        records d \<noteq> [] \<and> total_or_zero (total d) \<le> 3"
  proof (intro allI ballI)
    fix n d
    assume "d \<in> set (responses (searchAll n Part_001 test_sdk two_pages test_options))"
    then have "d \<in> set (responses (searchAll_loop 2 Part_001 test_sdk two_pages test_options 0 0 0))"
      using responses_of_ended [OF ended, of n] by (auto simp: searchAll_def)
    then show "records d \<noteq> [] \<and> total_or_zero (total d) \<le> 3"
      by (auto simp: run total_or_zero_def)
  qed
  have "max 1 (nat 3) = (3::nat)" by simp
  then show ?thesis
    using C9_termination [of Part_001 test_sdk two_pages test_options 3 test_options] pre
    by simp
qed

text \<open>
  The claim as stated fails: one record or more in every response does not make the
  traversal end. Against a server whose total grows with every page the loop
  condition holds after every page.
\<close>

theorem C9_growing_total_counterexample:
  "(\<forall>k url req. \<exists>data.
       growing k url req
         = FetchResolves \<lparr>ok = True, status = 200, json = Inr (JsonObject data)\<rparr>
       \<and> records data \<noteq> [])
   \<and> (\<forall>n. finished (searchAll n Index_ts test_sdk growing test_options) = None
          \<and> length (requests (searchAll n Index_ts test_sdk growing test_options)) = n)"
  using growing_loop [of 0 0 _ Index_ts test_sdk test_options 0]
  by (simp add: searchAll_def growing_def success_def)

end
